theory Spec2Isabelle
  imports Main "HOL-Library.Word"
begin

unbundle bit_operations_syntax

section \<open>The Windows console backend of go-logging (log\_windows.go)\<close>

text \<open>
  The file colours each log line on a Windows console: \<open>Log\<close> sets the console text
  attribute from a table indexed by the level, writes the line through the standard
  logger, and sets the attribute back to white.

  Conventions of the embedding.
  \<^item> Go's \<open>int\<close> and \<open>uintptr\<close> are machine words of the same, platform-given width
    (32 bits on windows/386, 64 on windows/amd64): they are \<open>'n word\<close> with the width
    \<open>'n\<close> left open, so that \<open>calldepth + 1\<close> wraps as it does in Go.
  \<^item> \<open>Level\<close> is a Go \<open>int\<close> as well, but the file never computes with a level: it only
    uses it as an index. It is modelled as \<open>int\<close>, and the bounds check of the index
    expression is written out.
  \<^item> What the file calls but does not define (\<open>Record.Formatted\<close>, \<open>log.Logger.Output\<close>
    and the procedure \<open>SetConsoleTextAttribute\<close> of kernel32.dll) is a parameter,
    collected in an environment. Each such call is appended to a trace together with
    what it returned; what a write or a procedure call returns may depend on the whole
    trace before it.
  \<^item> A runtime panic raised by an expression of this file is an outcome of its own.
\<close>

subsection \<open>Types and constants\<close>

type_synonym Level = int

text \<open>\<open>type word uint16\<close>\<close>

type_synonym word16 = "16 word"

definition fgBlack :: word16 where "fgBlack = 0x0000"
definition fgBlue :: word16 where "fgBlue = 0x0001"
definition fgGreen :: word16 where "fgGreen = 0x0002"
definition fgCyan :: word16 where "fgCyan = 0x0003"
definition fgRed :: word16 where "fgRed = 0x0004"
definition fgMagenta :: word16 where "fgMagenta = 0x0005"
definition fgYellow :: word16 where "fgYellow = 0x0006"
definition fgWhite :: word16 where "fgWhite = 0x0007"
definition fgIntensity :: word16 where "fgIntensity = 0x0008"
definition fgMask :: word16 where "fgMask = 0x000F"

text \<open>
  The level constants \<open>INFO\<close>, \<open>CRITICAL\<close>, \<open>ERROR\<close>, \<open>WARNING\<close>, \<open>NOTICE\<close> and \<open>DEBUG\<close> are
  declared in another file of the package. Their values are a parameter of the tables.
\<close>

record level_consts =
  INFO :: Level
  CRITICAL :: Level
  ERROR :: Level
  WARNING :: Level
  NOTICE :: Level
  DEBUG :: Level

definition levels :: "level_consts \<Rightarrow> Level list" where
  "levels L = [DEBUG L, NOTICE L, WARNING L, ERROR L, CRITICAL L, INFO L]"

text \<open>
  The constants are used as the keys of two slice literals. The Go compiler accepts a
  keyed slice literal only if every key is a non-negative constant and no key occurs
  twice, so a program that contains the tables below satisfies \<open>levels_ok\<close>.
\<close>

definition levels_ok :: "level_consts \<Rightarrow> bool" where
  "levels_ok L \<longleftrightarrow> distinct (levels L) \<and> list_all (\<lambda>l. 0 \<le> l) (levels L)"

text \<open>
  A numbering with the values 0 to 5, as an \<open>iota\<close> declaration in the order \<open>CRITICAL\<close>,
  \<open>ERROR\<close>, \<open>WARNING\<close>, \<open>NOTICE\<close>, \<open>INFO\<close>, \<open>DEBUG\<close> gives. It is the concrete instance on
  which the theorems below are evaluated.
\<close>

definition iota_levels :: level_consts where
  "iota_levels = \<lparr>INFO = 4, CRITICAL = 0, ERROR = 1, WARNING = 2, NOTICE = 3, DEBUG = 5\<rparr>"

subsection \<open>Slices: keyed literals and indexing\<close>

text \<open>
  A keyed slice literal \<open>[]word{k1: v1, ..., kn: vn}\<close> has length one more than its
  largest key, holds \<open>vi\<close> at index \<open>ki\<close>, and the zero value at every index that is not
  a key.
\<close>

definition slice_len :: "(Level \<times> 'a) list \<Rightarrow> nat" where
  "slice_len kvs = fold (\<lambda>(k, v) n. max n (nat (k + 1))) kvs 0"

definition keyed_slice :: "(Level \<times> 'a::zero) list \<Rightarrow> 'a list" where
  "keyed_slice kvs =
     map (\<lambda>i. case map_of kvs (int i) of Some v \<Rightarrow> v | None \<Rightarrow> 0) [0 ..< slice_len kvs]"

datatype panic = IndexOutOfRange int nat

text \<open>The index expression \<open>xs[i]\<close>: a runtime panic unless \<open>0 \<le> i < len(xs)\<close>.\<close>

definition index :: "'a list \<Rightarrow> Level \<Rightarrow> panic + 'a" where
  "index xs i =
     (if 0 \<le> i \<and> i < int (length xs) then Inr (xs ! nat i)
      else Inl (IndexOutOfRange i (length xs)))"

definition colors :: "level_consts \<Rightarrow> word16 list" where
  "colors L = keyed_slice
     [(INFO L, fgWhite),
      (CRITICAL L, fgMagenta),
      (ERROR L, fgRed),
      (WARNING L, fgYellow),
      (NOTICE L, fgGreen),
      (DEBUG L, fgCyan)]"

definition boldcolors :: "level_consts \<Rightarrow> word16 list" where
  "boldcolors L = keyed_slice
     [(INFO L, fgWhite OR fgIntensity),
      (CRITICAL L, fgMagenta OR fgIntensity),
      (ERROR L, fgRed OR fgIntensity),
      (WARNING L, fgYellow OR fgIntensity),
      (NOTICE L, fgGreen OR fgIntensity),
      (DEBUG L, fgCyan OR fgIntensity)]"

subsection \<open>Writers, files, loggers and errors\<close>

text \<open>
  An \<open>io.Writer\<close> value is identified by a number; \<open>writer_Fd\<close> is \<open>Some h\<close> when its
  dynamic type has a method \<open>Fd() uintptr\<close> (then the call returns \<open>h\<close>), and \<open>None\<close> when
  it has no such method. The nil interface value is \<open>None\<close>.
\<close>

datatype 'w writer = Writer (writer_id: nat) (writer_Fd: "'w option")

text \<open>A non-nil value of the interface \<open>file\<close>.\<close>

datatype 'w file_val = File (file_id: nat) (Fd: 'w)

text \<open>The type assertion \<open>out.(file)\<close>; it fails on the nil interface value.\<close>

fun as_file :: "'w writer option \<Rightarrow> 'w file_val option" where
  "as_file None = None"
| "as_file (Some (Writer i None)) = None"
| "as_file (Some (Writer i (Some h))) = Some (File i h)"

text \<open>What \<open>log.New(out, prefix, flag)\<close> is built from.\<close>

record 'w Logger_state =
  out :: "'w writer option"
  prefix :: string
  flag :: 'w

definition log_New :: "'w writer option \<Rightarrow> string \<Rightarrow> 'w \<Rightarrow> 'w Logger_state" where
  "log_New w p fl = \<lparr>out = w, prefix = p, flag = fl\<rparr>"

text \<open>
  Error values: \<open>nil\<close> is \<open>None\<close>. \<open>syscall.EINVAL\<close> is the one error this file names; any
  other error value is told apart by a tag.
\<close>

datatype error = EINVAL | OtherError string

subsection \<open>The calls to the outside, and their trace\<close>

datatype ('w, 'r) event =
  EvProcCall 'w 'w 'w 'w 'w "error option"
| EvFormatted 'r 'w string
| EvOutput "'w Logger_state" 'w string "error option"

text \<open>
  \<open>EvProcCall a1 a2 a3 r1 r2 err\<close>: \<open>setConsoleTextAttributeProc.Call(a1, a2, a3)\<close> returned
  \<open>(r1, r2, err)\<close>. \<open>EvFormatted rec d s\<close>: \<open>rec.Formatted(d)\<close> returned \<open>s\<close>.
  \<open>EvOutput l d s err\<close>: \<open>l.Output(d, s)\<close> returned \<open>err\<close>.
\<close>

text \<open>
  Modelled from the spec: \<open>Record.Formatted\<close> and \<open>log.Logger.Output\<close> are not in this file.
  The formatter is "pure, no side effects, does not fail", so \<open>Formatted\<close> is a function
  of the record and the depth alone; the sink's write returns success or an error, so
  \<open>Output\<close> returns an optional error. \<open>Call\<close> is \<open>LazyProc.Call\<close> with three arguments.
\<close>

record ('w, 'r) env =
  Formatted :: "'r \<Rightarrow> 'w \<Rightarrow> string"
  Output :: "('w, 'r) event list \<Rightarrow> 'w Logger_state \<Rightarrow> 'w \<Rightarrow> string \<Rightarrow> error option"
  Call :: "('w, 'r) event list \<Rightarrow> 'w \<Rightarrow> 'w \<Rightarrow> 'w \<Rightarrow> 'w \<times> 'w \<times> error option"

definition call_Formatted ::
  "('w, 'r) env \<Rightarrow> ('w, 'r) event list \<Rightarrow> 'r \<Rightarrow> 'w \<Rightarrow> string \<times> ('w, 'r) event list" where
  "call_Formatted E tr rec d = (let s = Formatted E rec d in (s, tr @ [EvFormatted rec d s]))"

definition call_Output ::
  "('w, 'r) env \<Rightarrow> ('w, 'r) event list \<Rightarrow> 'w Logger_state \<Rightarrow> 'w \<Rightarrow> string
     \<Rightarrow> error option \<times> ('w, 'r) event list" where
  "call_Output E tr l d s = (let err = Output E tr l d s in (err, tr @ [EvOutput l d s err]))"

definition call_Proc ::
  "('w, 'r) env \<Rightarrow> ('w, 'r) event list \<Rightarrow> 'w \<Rightarrow> 'w \<Rightarrow> 'w
     \<Rightarrow> ('w \<times> 'w \<times> error option) \<times> ('w, 'r) event list" where
  "call_Proc E tr a1 a2 a3 =
     (case Call E tr a1 a2 a3 of
        (r1, r2, err) \<Rightarrow> ((r1, r2, err), tr @ [EvProcCall a1 a2 a3 r1 r2 err]))"

subsection \<open>bytes.Buffer\<close>

text \<open>A Go string and a byte slice hold the same bytes; the conversions copy them.\<close>

type_synonym Buffer = string

definition Buffer_empty :: Buffer where
  "Buffer_empty = []"

definition Buffer_Write :: "Buffer \<Rightarrow> string \<Rightarrow> Buffer" where
  "Buffer_Write buf p = buf @ p"

definition Buffer_String :: "Buffer \<Rightarrow> string" where
  "Buffer_String buf = buf"

subsection \<open>checkError and setConsoleTextAttribute\<close>

definition checkError :: "'n::len word \<Rightarrow> 'n word \<Rightarrow> error option \<Rightarrow> error option" where
  "checkError r1 r2 err =
     (if r1 \<noteq> 0 then None
      else if err \<noteq> None then err
      else Some EINVAL)"

definition use :: "'a \<Rightarrow> unit" where
  "use p = ()"

definition setConsoleTextAttribute ::
  "('n::len word, 'r) env \<Rightarrow> ('n word, 'r) event list \<Rightarrow> 'n word file_val \<Rightarrow> word16
     \<Rightarrow> error option \<times> ('n word, 'r) event list" where
  "setConsoleTextAttribute E tr fl attribute =
     (case call_Proc E tr (Fd fl) (ucast attribute) 0 of
        ((r1, r2, err), tr') \<Rightarrow>
          (let u = use attribute in (checkError r1 r2 err, tr')))"

subsection \<open>LogBackend\<close>

record 'w LogBackend =
  Logger :: "'w Logger_state"
  Color :: bool
  f :: "'w file_val option"

definition NewLogBackend :: "'n::len word writer option \<Rightarrow> string \<Rightarrow> 'n word \<Rightarrow> 'n word LogBackend" where
  "NewLogBackend w p fl =
     (let b = \<lparr>Logger = log_New w p fl, Color = False, f = None\<rparr>
      in case as_file w of
           Some fl' \<Rightarrow> b\<lparr>f := Some fl'\<rparr>
         | None \<Rightarrow> b)"

datatype outcome = Returned "error option" | Panicked panic

text \<open>
  \<open>Log\<close> takes the backend and the trace so far, and gives back its outcome, the backend
  and the trace after the call. On the colour path the arguments of the first
  \<open>setConsoleTextAttribute\<close> are evaluated before anything else happens, so an index
  out of range panics before the first call to the outside.
\<close>

definition Log ::
  "level_consts \<Rightarrow> ('n::len word, 'r) env \<Rightarrow> 'n word LogBackend \<Rightarrow> ('n word, 'r) event list
     \<Rightarrow> Level \<Rightarrow> 'n word \<Rightarrow> 'r
     \<Rightarrow> outcome \<times> 'n word LogBackend \<times> ('n word, 'r) event list" where
  "Log L E b tr level calldepth rec =
     (case (Color b, f b) of
        (True, Some fl) \<Rightarrow>
          (case index (colors L) level of
             Inl p \<Rightarrow> (Panicked p, b, tr)
           | Inr attribute \<Rightarrow>
               (case setConsoleTextAttribute E tr fl attribute of (_, tr1) \<Rightarrow>
                (case call_Formatted E tr1 rec (calldepth + 1) of (s, tr2) \<Rightarrow>
                (let buf = Buffer_Write Buffer_empty s in
                (case call_Output E tr2 (Logger b) (calldepth + 2) (Buffer_String buf) of (err, tr3) \<Rightarrow>
                (case setConsoleTextAttribute E tr3 fl fgWhite of (_, tr4) \<Rightarrow>
                   (Returned err, b, tr4)))))))
      | _ \<Rightarrow>
          (case call_Formatted E tr rec (calldepth + 1) of (s, tr1) \<Rightarrow>
          (case call_Output E tr1 (Logger b) (calldepth + 2) s of (err, tr2) \<Rightarrow>
             (Returned err, b, tr2))))"

subsection \<open>Client operations on a backend\<close>

text \<open>
  What a client can do to a backend after \<open>NewLogBackend\<close>: call \<open>Log\<close>, and assign to the
  exported fields \<open>Color\<close> and \<open>Logger\<close>. The field \<open>f\<close> is not exported, and no function
  of this file other than \<open>NewLogBackend\<close> assigns to it.
\<close>

datatype ('w, 'r) op =
  OpLog Level 'w 'r
| OpSetColor bool
| OpSetLogger "'w Logger_state"

fun apply_op ::
  "level_consts \<Rightarrow> ('n::len word, 'r) env \<Rightarrow> 'n word LogBackend \<times> ('n word, 'r) event list
     \<Rightarrow> ('n word, 'r) op \<Rightarrow> 'n word LogBackend \<times> ('n word, 'r) event list" where
  "apply_op L E (b, tr) (OpLog level calldepth rec) = snd (Log L E b tr level calldepth rec)"
| "apply_op L E (b, tr) (OpSetColor c) = (b\<lparr>Color := c\<rparr>, tr)"
| "apply_op L E (b, tr) (OpSetLogger l) = (b\<lparr>Logger := l\<rparr>, tr)"

fun run_ops ::
  "level_consts \<Rightarrow> ('n::len word, 'r) env \<Rightarrow> 'n word LogBackend \<times> ('n word, 'r) event list
     \<Rightarrow> ('n word, 'r) op list \<Rightarrow> 'n word LogBackend \<times> ('n word, 'r) event list" where
  "run_ops L E st [] = st"
| "run_ops L E st (x # xs) = run_ops L E (apply_op L E st x) xs"

subsection \<open>Reading a trace\<close>

text \<open>The arguments of the calls of \<open>SetConsoleTextAttribute\<close>, in order.\<close>

fun attr_calls :: "('w, 'r) event list \<Rightarrow> ('w \<times> 'w \<times> 'w) list" where
  "attr_calls [] = []"
| "attr_calls (EvProcCall a1 a2 a3 r1 r2 err # tr) = (a1, a2, a3) # attr_calls tr"
| "attr_calls (EvFormatted rec d s # tr) = attr_calls tr"
| "attr_calls (EvOutput l d s err # tr) = attr_calls tr"

text \<open>The arguments of the calls of the formatter, in order.\<close>

fun format_calls :: "('w, 'r) event list \<Rightarrow> ('r \<times> 'w) list" where
  "format_calls [] = []"
| "format_calls (EvProcCall a1 a2 a3 r1 r2 err # tr) = format_calls tr"
| "format_calls (EvFormatted rec d s # tr) = (rec, d) # format_calls tr"
| "format_calls (EvOutput l d s err # tr) = format_calls tr"

text \<open>The arguments of the calls of \<open>Logger.Output\<close>, in order, and what they returned.\<close>

fun writes :: "('w, 'r) event list \<Rightarrow> ('w Logger_state \<times> 'w \<times> string) list" where
  "writes [] = []"
| "writes (EvProcCall a1 a2 a3 r1 r2 err # tr) = writes tr"
| "writes (EvFormatted rec d s # tr) = writes tr"
| "writes (EvOutput l d s err # tr) = (l, d, s) # writes tr"

fun write_results :: "('w, 'r) event list \<Rightarrow> error option list" where
  "write_results [] = []"
| "write_results (EvProcCall a1 a2 a3 r1 r2 err # tr) = write_results tr"
| "write_results (EvFormatted rec d s # tr) = write_results tr"
| "write_results (EvOutput l d s err # tr) = err # write_results tr"

subsection \<open>Concrete inputs\<close>

text \<open>
  A console whose handle is 7, a pipe without a handle, and two environments on
  windows/amd64 with records named by numbers. In \<open>env_failing\<close> every attribute call
  fails without an error value and every write fails; in \<open>env_attr_failing\<close> the attribute
  calls fail with an error value and the writes succeed.
\<close>

definition console :: "64 word writer" where
  "console = Writer 1 (Some 7)"

definition pipe :: "64 word writer" where
  "pipe = Writer 2 None"

definition env_failing :: "(64 word, nat) env" where
  "env_failing =
     \<lparr>Formatted = (\<lambda>rec d. ''msg''),
      Output = (\<lambda>tr l d s. Some (OtherError ''closed pipe'')),
      Call = (\<lambda>tr a1 a2 a3. (0, 0, None))\<rparr>"

definition env_attr_failing :: "(64 word, nat) env" where
  "env_attr_failing =
     \<lparr>Formatted = (\<lambda>rec d. ''msg''),
      Output = (\<lambda>tr l d s. None),
      Call = (\<lambda>tr a1 a2 a3. (0, 0, Some (OtherError ''invalid handle'')))\<rparr>"

definition color_backend :: "64 word LogBackend" where
  "color_backend = (NewLogBackend (Some console) ''app '' 0)\<lparr>Color := True\<rparr>"

definition pipe_backend :: "64 word LogBackend" where
  "pipe_backend = (NewLogBackend (Some pipe) ''app '' 0)\<lparr>Color := True\<rparr>"

section \<open>Properties\<close>

subsection \<open>Keyed slice literals and the two tables\<close>

lemma fold_slice_len_mono:
  "m \<le> fold (\<lambda>(k, v) n. max n (nat (k + 1))) kvs m"
proof (induction kvs arbitrary: m)
  case Nil
  show ?case by simp
next
  case (Cons kv kvs)
  obtain k v where kv: "kv = (k, v)" by (cases kv)
  have "m \<le> max m (nat (k + 1))" by simp
  also have "\<dots> \<le> fold (\<lambda>(k, v) n. max n (nat (k + 1))) kvs (max m (nat (k + 1)))"
    by (rule Cons.IH)
  finally show ?case by (simp add: kv)
qed

lemma fold_slice_len_key:
  "(k, v) \<in> set kvs \<Longrightarrow> nat (k + 1) \<le> fold (\<lambda>(k, v) n. max n (nat (k + 1))) kvs m"
proof (induction kvs arbitrary: m)
  case Nil
  then show ?case by simp
next
  case (Cons kv kvs)
  show ?case
  proof (cases "kv = (k, v)")
    case True
    have "nat (k + 1) \<le> max m (nat (k + 1))" by simp
    also have "\<dots> \<le> fold (\<lambda>(k, v) n. max n (nat (k + 1))) kvs (max m (nat (k + 1)))"
      by (rule fold_slice_len_mono)
    finally show ?thesis by (simp add: True)
  next
    case False
    with Cons.prems have "(k, v) \<in> set kvs" by simp
    from Cons.IH [OF this] show ?thesis by (cases kv) simp
  qed
qed

lemma slice_len_key: "(k, v) \<in> set kvs \<Longrightarrow> nat (k + 1) \<le> slice_len kvs"
  unfolding slice_len_def by (rule fold_slice_len_key)

lemma length_keyed_slice: "length (keyed_slice kvs) = slice_len kvs"
  by (simp add: keyed_slice_def)

lemma index_keyed_slice:
  assumes "distinct (map fst kvs)" and "(k, v) \<in> set kvs" and "0 \<le> k"
  shows "index (keyed_slice kvs) k = Inr v"
proof -
  from assms(2) have "nat (k + 1) \<le> slice_len kvs" by (rule slice_len_key)
  with assms(3) have lt: "nat k < slice_len kvs" by linarith
  from assms(1,2) have "map_of kvs k = Some v" by (rule map_of_is_SomeI)
  with lt assms(3) show ?thesis
    by (simp add: index_def keyed_slice_def)
qed

lemma colors_keys:
  assumes "levels_ok L"
  shows "distinct [INFO L, CRITICAL L, ERROR L, WARNING L, NOTICE L, DEBUG L]"
    and "0 \<le> INFO L" "0 \<le> CRITICAL L" "0 \<le> ERROR L" "0 \<le> WARNING L" "0 \<le> NOTICE L" "0 \<le> DEBUG L"
  using assms by (auto simp: levels_ok_def levels_def)

lemma index_colors:
  assumes "levels_ok L"
  shows "index (colors L) (INFO L) = Inr fgWhite"
    and "index (colors L) (CRITICAL L) = Inr fgMagenta"
    and "index (colors L) (ERROR L) = Inr fgRed"
    and "index (colors L) (WARNING L) = Inr fgYellow"
    and "index (colors L) (NOTICE L) = Inr fgGreen"
    and "index (colors L) (DEBUG L) = Inr fgCyan"
  unfolding colors_def
  using colors_keys [OF assms]
  by (auto intro!: index_keyed_slice)

lemma index_boldcolors:
  assumes "levels_ok L"
  shows "index (boldcolors L) (INFO L) = Inr (fgWhite OR fgIntensity)"
    and "index (boldcolors L) (CRITICAL L) = Inr (fgMagenta OR fgIntensity)"
    and "index (boldcolors L) (ERROR L) = Inr (fgRed OR fgIntensity)"
    and "index (boldcolors L) (WARNING L) = Inr (fgYellow OR fgIntensity)"
    and "index (boldcolors L) (NOTICE L) = Inr (fgGreen OR fgIntensity)"
    and "index (boldcolors L) (DEBUG L) = Inr (fgCyan OR fgIntensity)"
  unfolding boldcolors_def
  using colors_keys [OF assms]
  by (auto intro!: index_keyed_slice)

lemma fg_nonzero:
  "fgWhite \<noteq> 0" "fgMagenta \<noteq> 0" "fgRed \<noteq> 0" "fgYellow \<noteq> 0" "fgGreen \<noteq> 0" "fgCyan \<noteq> 0"
  "fgWhite OR fgIntensity \<noteq> 0" "fgMagenta OR fgIntensity \<noteq> 0" "fgRed OR fgIntensity \<noteq> 0"
  "fgYellow OR fgIntensity \<noteq> 0" "fgGreen OR fgIntensity \<noteq> 0" "fgCyan OR fgIntensity \<noteq> 0"
  by (simp_all add: fgWhite_def fgMagenta_def fgRed_def fgYellow_def fgGreen_def fgCyan_def
      fgIntensity_def)

subsection \<open>What one call of Log does\<close>

lemma attr_calls_append: "attr_calls (xs @ ys) = attr_calls xs @ attr_calls ys"
  by (induction xs rule: attr_calls.induct) simp_all

lemma format_calls_append: "format_calls (xs @ ys) = format_calls xs @ format_calls ys"
  by (induction xs rule: format_calls.induct) simp_all

lemma writes_append: "writes (xs @ ys) = writes xs @ writes ys"
  by (induction xs rule: writes.induct) simp_all

lemma write_results_append: "write_results (xs @ ys) = write_results xs @ write_results ys"
  by (induction xs rule: write_results.induct) simp_all

lemma setConsoleTextAttribute_trace:
  "\<exists>r1 r2 err. setConsoleTextAttribute E tr fl a =
     (checkError r1 r2 err, tr @ [EvProcCall (Fd fl) (ucast a) 0 r1 r2 err]) \<and>
     Call E tr (Fd fl) (ucast a) 0 = (r1, r2, err)"
  by (cases "Call E tr (Fd fl) (ucast a) 0")
    (simp add: setConsoleTextAttribute_def call_Proc_def Let_def)

lemma Log_panic:
  assumes "Color b" and "f b = Some fl" and "index (colors L) level = Inl p"
  shows "Log L E b tr level calldepth rec = (Panicked p, b, tr)"
  using assms by (simp add: Log_def)

lemma Log_plain:
  assumes "\<not> (Color b \<and> f b \<noteq> None)"
  shows "Log L E b tr level calldepth rec =
    (Returned (Output E (tr @ [EvFormatted rec (calldepth + 1) (Formatted E rec (calldepth + 1))])
                 (Logger b) (calldepth + 2) (Formatted E rec (calldepth + 1))),
     b,
     tr @ [EvFormatted rec (calldepth + 1) (Formatted E rec (calldepth + 1)),
           EvOutput (Logger b) (calldepth + 2) (Formatted E rec (calldepth + 1))
             (Output E (tr @ [EvFormatted rec (calldepth + 1) (Formatted E rec (calldepth + 1))])
                 (Logger b) (calldepth + 2) (Formatted E rec (calldepth + 1)))])"
  using assms
  by (cases "Color b"; cases "f b")
    (simp_all add: Log_def call_Formatted_def call_Output_def Let_def)

lemma Log_color:
  assumes "Color b" and "f b = Some fl" and "index (colors L) level = Inr a"
  shows "\<exists>r1 r2 e1 r1' r2' e2 err. 
    err = Output E (tr @ [EvProcCall (Fd fl) (ucast a) 0 r1 r2 e1,
                  EvFormatted rec (calldepth + 1) (Formatted E rec (calldepth + 1))])
                 (Logger b) (calldepth + 2) (Formatted E rec (calldepth + 1)) \<and>
    Log L E b tr level calldepth rec =
    (Returned err, b,
     tr @ [EvProcCall (Fd fl) (ucast a) 0 r1 r2 e1,
           EvFormatted rec (calldepth + 1) (Formatted E rec (calldepth + 1)),
           EvOutput (Logger b) (calldepth + 2) (Formatted E rec (calldepth + 1)) err,
           EvProcCall (Fd fl) (ucast fgWhite) 0 r1' r2' e2])"
proof -
  obtain r1 r2 e1 where s1: "setConsoleTextAttribute E tr fl a =
     (checkError r1 r2 e1, tr @ [EvProcCall (Fd fl) (ucast a) 0 r1 r2 e1])"
    using setConsoleTextAttribute_trace by blast
  define s where "s = Formatted E rec (calldepth + 1)"
  define tr2 where "tr2 = tr @ [EvProcCall (Fd fl) (ucast a) 0 r1 r2 e1, EvFormatted rec (calldepth + 1) s]"
  define err where "err = Output E tr2 (Logger b) (calldepth + 2) s"
  define tr3 where "tr3 = tr2 @ [EvOutput (Logger b) (calldepth + 2) s err]"
  obtain r1' r2' e2 where s2: "setConsoleTextAttribute E tr3 fl fgWhite =
     (checkError r1' r2' e2, tr3 @ [EvProcCall (Fd fl) (ucast fgWhite) 0 r1' r2' e2])"
    using setConsoleTextAttribute_trace by blast
  have "Log L E b tr level calldepth rec =
      (Returned err, b, tr3 @ [EvProcCall (Fd fl) (ucast fgWhite) 0 r1' r2' e2])"
    using assms s1 s2
    by (simp add: Log_def call_Formatted_def call_Output_def Let_def
        Buffer_Write_def Buffer_empty_def Buffer_String_def s_def tr2_def err_def tr3_def)
  then show ?thesis
    unfolding tr3_def tr2_def err_def s_def by auto
qed

lemma Log_backend: "fst (snd (Log L E b tr level calldepth rec)) = b"
proof (cases "Color b \<and> f b \<noteq> None")
  case False
  then show ?thesis by (simp add: Log_plain)
next
  case True
  then obtain fl where fl: "Color b" "f b = Some fl" by auto
  show ?thesis
  proof (cases "index (colors L) level")
    case (Inl p)
    with fl show ?thesis by (simp add: Log_panic)
  next
    case (Inr a)
    from Log_color [OF fl Inr, where E = E and tr = tr and calldepth = calldepth and rec = rec]
    obtain err tr' where "Log L E b tr level calldepth rec = (Returned err, b, tr')" by blast
    then show ?thesis by simp
  qed
qed

lemma sample_levels_ok: "levels_ok iota_levels"
  by (simp add: levels_ok_def levels_def iota_levels_def)

lemma colors_iota: "colors iota_levels = [fgMagenta, fgRed, fgYellow, fgGreen, fgWhite, fgCyan]"
  by (simp add: colors_def keyed_slice_def slice_len_def iota_levels_def upt_rec)

lemma color_backend_fields:
  "Color color_backend" "f color_backend = Some (File 1 7)"
  "Logger color_backend = \<lparr>out = Some console, prefix = ''app '', flag = 0\<rparr>"
  by (simp_all add: color_backend_def NewLogBackend_def console_def log_New_def)

lemma pipe_backend_fields:
  "Color pipe_backend" "f pipe_backend = None"
  "Logger pipe_backend = \<lparr>out = Some pipe, prefix = ''app '', flag = 0\<rparr>"
  by (simp_all add: pipe_backend_def NewLogBackend_def pipe_def log_New_def)

lemma Log_plain_trace:
  assumes "\<not> (Color b \<and> f b \<noteq> None)"
  shows "snd (snd (Log L E b tr level calldepth rec)) =
     tr @ [EvFormatted rec (calldepth + 1) (Formatted E rec (calldepth + 1)),
           EvOutput (Logger b) (calldepth + 2) (Formatted E rec (calldepth + 1))
             (Output E (tr @ [EvFormatted rec (calldepth + 1) (Formatted E rec (calldepth + 1))])
                 (Logger b) (calldepth + 2) (Formatted E rec (calldepth + 1)))]"
  by (simp add: Log_plain [OF assms])

lemma Log_color_trace:
  assumes "Color b" and "f b = Some fl" and "index (colors L) level = Inr a"
  shows "\<exists>r1 r2 e1 r1' r2' e2 err.
    snd (snd (Log L E b tr level calldepth rec)) =
     tr @ [EvProcCall (Fd fl) (ucast a) 0 r1 r2 e1,
           EvFormatted rec (calldepth + 1) (Formatted E rec (calldepth + 1)),
           EvOutput (Logger b) (calldepth + 2) (Formatted E rec (calldepth + 1)) err,
           EvProcCall (Fd fl) (ucast fgWhite) 0 r1' r2' e2]"
proof -
  from Log_color [OF assms, where E = E and tr = tr and calldepth = calldepth and rec = rec]
  obtain r1 r2 e1 r1' r2' e2 err where
    "Log L E b tr level calldepth rec =
    (Returned err, b,
     tr @ [EvProcCall (Fd fl) (ucast a) 0 r1 r2 e1,
           EvFormatted rec (calldepth + 1) (Formatted E rec (calldepth + 1)),
           EvOutput (Logger b) (calldepth + 2) (Formatted E rec (calldepth + 1)) err,
           EvProcCall (Fd fl) (ucast fgWhite) 0 r1' r2' e2])"
    by blast
  then have "snd (snd (Log L E b tr level calldepth rec)) =
     tr @ [EvProcCall (Fd fl) (ucast a) 0 r1 r2 e1,
           EvFormatted rec (calldepth + 1) (Formatted E rec (calldepth + 1)),
           EvOutput (Logger b) (calldepth + 2) (Formatted E rec (calldepth + 1)) err,
           EvProcCall (Fd fl) (ucast fgWhite) 0 r1' r2' e2]"
    by simp
  then show ?thesis by blast
qed

lemma Log_color_reads:
  assumes "Color b" and "f b = Some fl" and "index (colors L) level = Inr a"
  shows "attr_calls (snd (snd (Log L E b tr level calldepth rec))) =
           attr_calls tr @ [(Fd fl, ucast a, 0), (Fd fl, ucast fgWhite, 0)]"
    and "format_calls (snd (snd (Log L E b tr level calldepth rec))) =
           format_calls tr @ [(rec, calldepth + 1)]"
    and "writes (snd (snd (Log L E b tr level calldepth rec))) =
           writes tr @ [(Logger b, calldepth + 2, Formatted E rec (calldepth + 1))]"
proof -
  from Log_color_trace [OF assms, where E = E and tr = tr and calldepth = calldepth and rec = rec]
  obtain r1 r2 e1 r1' r2' e2 err where t:
    "snd (snd (Log L E b tr level calldepth rec)) =
     tr @ [EvProcCall (Fd fl) (ucast a) 0 r1 r2 e1,
           EvFormatted rec (calldepth + 1) (Formatted E rec (calldepth + 1)),
           EvOutput (Logger b) (calldepth + 2) (Formatted E rec (calldepth + 1)) err,
           EvProcCall (Fd fl) (ucast fgWhite) 0 r1' r2' e2]"
    by blast
  show "attr_calls (snd (snd (Log L E b tr level calldepth rec))) =
           attr_calls tr @ [(Fd fl, ucast a, 0), (Fd fl, ucast fgWhite, 0)]"
    by (simp add: t attr_calls_append)
  show "format_calls (snd (snd (Log L E b tr level calldepth rec))) =
           format_calls tr @ [(rec, calldepth + 1)]"
    by (simp add: t format_calls_append)
  show "writes (snd (snd (Log L E b tr level calldepth rec))) =
           writes tr @ [(Logger b, calldepth + 2, Formatted E rec (calldepth + 1))]"
    by (simp add: t writes_append)
qed

lemma Log_plain_reads:
  assumes "\<not> (Color b \<and> f b \<noteq> None)"
  shows "attr_calls (snd (snd (Log L E b tr level calldepth rec))) = attr_calls tr"
    and "format_calls (snd (snd (Log L E b tr level calldepth rec))) =
           format_calls tr @ [(rec, calldepth + 1)]"
    and "writes (snd (snd (Log L E b tr level calldepth rec))) =
           writes tr @ [(Logger b, calldepth + 2, Formatted E rec (calldepth + 1))]"
  by (simp_all add: Log_plain_trace [OF assms] attr_calls_append format_calls_append
      writes_append)


lemma checkError_nil: "checkError r1 r2 err = None \<longleftrightarrow> r1 \<noteq> 0"
  by (cases err) (simp_all add: checkError_def)

lemma apply_op_f: "f (fst (apply_op L E st x)) = f (fst st)"
proof (cases st)
  case (Pair b tr)
  show ?thesis
  proof (cases x)
    case (OpLog level calldepth rec)
    with Pair show ?thesis by (simp add: Log_backend)
  next
    case (OpSetColor c)
    with Pair show ?thesis by simp
  next
    case (OpSetLogger l)
    with Pair show ?thesis by simp
  qed
qed

lemma run_ops_f: "f (fst (run_ops L E st xs)) = f (fst st)"
  by (induction xs arbitrary: st) (simp_all add: apply_op_f)

lemma NewLogBackend_f: "f (NewLogBackend w p fl) = as_file w"
  by (cases "as_file w") (simp_all add: NewLogBackend_def)

lemma as_file_Some: "as_file w \<noteq> None \<longleftrightarrow> (\<exists>i h. w = Some (Writer i (Some h)))"
  by (cases w rule: as_file.cases) simp_all

lemma index_colors_level:
  assumes "levels_ok L" and "level \<in> set (levels L)"
  shows "\<exists>a. index (colors L) level = Inr a"
  using assms(2) index_colors [OF assms(1)] by (auto simp: levels_def)

subsection \<open>The claims\<close>



text \<open>
  C2. The value \<open>Log\<close> returns is the value that \<open>Logger.Output\<close> returned for the text
  \<open>rec.Formatted(calldepth + 1)\<close>, at the moment \<open>Log\<close> called it: \<open>mid\<close> is what \<open>Log\<close> did
  before the write and \<open>post\<close> what it did after, neither holds a write, and what the
  attribute calls returned appears nowhere in the returned value. \<open>Log\<close> fails to return
  only when the index expression on the colour path panics, before any call.
\<close>

theorem Log_returns_write_result:
  "(\<exists>p. Color b \<and> f b \<noteq> None \<and> index (colors L) level = Inl p \<and>
        Log L E b tr level calldepth rec = (Panicked p, b, tr)) \<or>
   (\<exists>mid post.
      write_results mid = [] \<and> write_results post = [] \<and>
      Log L E b tr level calldepth rec =
        (Returned (Output E (tr @ mid) (Logger b) (calldepth + 2)
                     (Formatted E rec (calldepth + 1))),
         b,
         tr @ mid @
           [EvOutput (Logger b) (calldepth + 2) (Formatted E rec (calldepth + 1))
              (Output E (tr @ mid) (Logger b) (calldepth + 2)
                 (Formatted E rec (calldepth + 1)))] @ post))"
proof (cases "Color b \<and> f b \<noteq> None")
  case False
  have "write_results [EvFormatted rec (calldepth + 1) (Formatted E rec (calldepth + 1))] = [] \<and>
      write_results ([] :: ('a word, 'b) event list) = [] \<and>
      Log L E b tr level calldepth rec =
        (Returned (Output E
             (tr @ [EvFormatted rec (calldepth + 1) (Formatted E rec (calldepth + 1))])
             (Logger b) (calldepth + 2) (Formatted E rec (calldepth + 1))),
         b,
         tr @ [EvFormatted rec (calldepth + 1) (Formatted E rec (calldepth + 1))] @
           [EvOutput (Logger b) (calldepth + 2) (Formatted E rec (calldepth + 1))
              (Output E
                 (tr @ [EvFormatted rec (calldepth + 1) (Formatted E rec (calldepth + 1))])
                 (Logger b) (calldepth + 2) (Formatted E rec (calldepth + 1)))] @ [])"
    by (simp add: Log_plain [OF False])
  then show ?thesis by blast
next
  case True
  then obtain fl where fl: "Color b" "f b = Some fl" by auto
  show ?thesis
  proof (cases "index (colors L) level")
    case (Inl p)
    with fl have "Log L E b tr level calldepth rec = (Panicked p, b, tr)"
      by (simp add: Log_panic)
    with True Inl show ?thesis by blast
  next
    case (Inr a)
    from Log_color [OF fl Inr, where E = E and tr = tr and calldepth = calldepth and rec = rec]
    obtain r1 r2 e1 r1' r2' e2 where run:
      "Log L E b tr level calldepth rec =
        (Returned (Output E (tr @ [EvProcCall (Fd fl) (ucast a) 0 r1 r2 e1,
                  EvFormatted rec (calldepth + 1) (Formatted E rec (calldepth + 1))])
                 (Logger b) (calldepth + 2) (Formatted E rec (calldepth + 1))),
         b,
         tr @ [EvProcCall (Fd fl) (ucast a) 0 r1 r2 e1,
           EvFormatted rec (calldepth + 1) (Formatted E rec (calldepth + 1)),
           EvOutput (Logger b) (calldepth + 2) (Formatted E rec (calldepth + 1))
             (Output E (tr @ [EvProcCall (Fd fl) (ucast a) 0 r1 r2 e1,
                  EvFormatted rec (calldepth + 1) (Formatted E rec (calldepth + 1))])
                 (Logger b) (calldepth + 2) (Formatted E rec (calldepth + 1))),
           EvProcCall (Fd fl) (ucast fgWhite) 0 r1' r2' e2])"
      by blast
    define mid where "mid = [EvProcCall (Fd fl) (ucast a) 0 r1 r2 e1,
        EvFormatted rec (calldepth + 1) (Formatted E rec (calldepth + 1))]"
    define post :: "('a word, 'b) event list"
      where "post = [EvProcCall (Fd fl) (ucast fgWhite) 0 r1' r2' e2]"
    have "write_results mid = [] \<and> write_results post = [] \<and>
      Log L E b tr level calldepth rec =
        (Returned (Output E (tr @ mid) (Logger b) (calldepth + 2)
                     (Formatted E rec (calldepth + 1))),
         b,
         tr @ mid @
           [EvOutput (Logger b) (calldepth + 2) (Formatted E rec (calldepth + 1))
              (Output E (tr @ mid) (Logger b) (calldepth + 2)
                 (Formatted E rec (calldepth + 1)))] @ post)"
      by (simp add: run mid_def post_def)
    then show ?thesis by blast
  qed
qed

text \<open>
  On the colour path with a failing write and failing attribute calls, \<open>Log\<close> returns the
  error of the write, not \<open>EINVAL\<close>; with failing attribute calls and a write that
  succeeds it returns nil.
\<close>

theorem Log_returns_write_result_witness:
  "fst (Log iota_levels env_failing color_backend [] 1 0 (42::nat)) =
     Returned (Some (OtherError ''closed pipe'')) \<and>
   fst (setConsoleTextAttribute env_failing [] (File 1 7) fgRed) = Some EINVAL \<and>
   fst (Log iota_levels env_attr_failing color_backend [] 1 0 (42::nat)) = Returned None \<and>
   fst (setConsoleTextAttribute env_attr_failing [] (File 1 7) fgRed) =
     Some (OtherError ''invalid handle'')"
proof -
  have in_bounds: "index (colors iota_levels) 1 = Inr fgRed"
    by (simp add: colors_iota index_def)
  have "fst (Log iota_levels env_failing color_backend [] 1 0 (42::nat)) =
     Returned (Some (OtherError ''closed pipe''))"
    using Log_returns_write_result [where L = iota_levels and E = env_failing
      and b = color_backend and tr = "[]" and level = 1 and calldepth = 0 and rec = "42::nat"]
      in_bounds
    by (auto simp: env_failing_def)
  moreover have "fst (Log iota_levels env_attr_failing color_backend [] 1 0 (42::nat)) =
     Returned None"
    using Log_returns_write_result [where L = iota_levels and E = env_attr_failing
      and b = color_backend and tr = "[]" and level = 1 and calldepth = 0 and rec = "42::nat"]
      in_bounds
    by (auto simp: env_attr_failing_def)
  moreover have "fst (setConsoleTextAttribute env_failing [] (File 1 7) fgRed) = Some EINVAL"
    by (simp add: setConsoleTextAttribute_def call_Proc_def Let_def env_failing_def
        checkError_def)
  moreover have "fst (setConsoleTextAttribute env_attr_failing [] (File 1 7) fgRed) =
     Some (OtherError ''invalid handle'')"
    by (simp add: setConsoleTextAttribute_def call_Proc_def Let_def env_attr_failing_def
        checkError_def)
  ultimately show ?thesis by simp
qed

text \<open>
  C3. For every call to \<open>Log\<close> where \<open>Color == false\<close> or the cached file handle is nil,
  the rendered text is passed to \<open>Logger.Output\<close>, the result of that call is returned as
  it is, and no call to \<open>SetConsoleTextAttribute\<close> is made: the call adds to the trace the
  formatter call and the write, nothing else.
\<close>

theorem Log_plain_path:
  assumes "\<not> Color b \<or> f b = None"
  shows "Log L E b tr level calldepth rec =
    (Returned (Output E (tr @ [EvFormatted rec (calldepth + 1) (Formatted E rec (calldepth + 1))])
                 (Logger b) (calldepth + 2) (Formatted E rec (calldepth + 1))),
     b,
     tr @ [EvFormatted rec (calldepth + 1) (Formatted E rec (calldepth + 1)),
           EvOutput (Logger b) (calldepth + 2) (Formatted E rec (calldepth + 1))
             (Output E (tr @ [EvFormatted rec (calldepth + 1) (Formatted E rec (calldepth + 1))])
                 (Logger b) (calldepth + 2) (Formatted E rec (calldepth + 1)))]) \<and>
    attr_calls (snd (snd (Log L E b tr level calldepth rec))) = attr_calls tr"
proof -
  from assms have plain: "\<not> (Color b \<and> f b \<noteq> None)" by simp
  show ?thesis
    by (simp add: Log_plain [OF plain] attr_calls_append)
qed

text \<open>
  A pipe has no handle: with \<open>Color == true\<close> the line is written plainly, and the
  error of the write is returned.
\<close>

theorem Log_plain_path_witness:
  "Color pipe_backend \<and> f pipe_backend = None \<and>
   Log iota_levels env_failing pipe_backend [] 2 0 (42::nat) =
     (Returned (Some (OtherError ''closed pipe'')), pipe_backend,
      [EvFormatted 42 1 ''msg'',
       EvOutput (Logger pipe_backend) 2 ''msg'' (Some (OtherError ''closed pipe''))]) \<and>
   attr_calls (snd (snd (Log iota_levels env_failing pipe_backend [] 2 0 (42::nat)))) = []"
proof -
  have h: "\<not> Color pipe_backend \<or> f pipe_backend = None"
    by (simp add: pipe_backend_fields)
  from Log_plain_path [OF h, where L = iota_levels and E = env_failing and tr = "[]"
      and level = 2 and calldepth = 0 and rec = "42::nat"]
  have "Log iota_levels env_failing pipe_backend [] 2 0 (42::nat) =
     (Returned (Some (OtherError ''closed pipe'')), pipe_backend,
      [EvFormatted 42 1 ''msg'',
       EvOutput (Logger pipe_backend) 2 ''msg'' (Some (OtherError ''closed pipe''))])"
    and "attr_calls (snd (snd (Log iota_levels env_failing pipe_backend [] 2 0 (42::nat)))) = []"
    by (simp_all add: env_failing_def)
  then show ?thesis by (simp add: pipe_backend_fields)
qed

text \<open>
  C4. For each of the six level constants, indexing \<open>colors\<close> and \<open>boldcolors\<close> gives a
  non-zero attribute, and the bold entry is the plain entry OR'd with \<open>fgIntensity\<close>.
\<close>

theorem tables_defined:
  assumes "levels_ok L"
  shows "\<forall>l \<in> set (levels L). \<exists>a.
           index (colors L) l = Inr a \<and> a \<noteq> 0 \<and>
           index (boldcolors L) l = Inr (a OR fgIntensity) \<and> a OR fgIntensity \<noteq> 0"
  using index_colors [OF assms] index_boldcolors [OF assms] fg_nonzero
  by (simp add: levels_def)

text \<open>The entries of \<open>ERROR\<close> under the numbering \<open>iota_levels\<close>.\<close>

theorem tables_defined_witness:
  "levels_ok iota_levels \<and> ERROR iota_levels \<in> set (levels iota_levels) \<and>
   index (colors iota_levels) (ERROR iota_levels) = Inr fgRed \<and> fgRed \<noteq> 0 \<and>
   index (boldcolors iota_levels) (ERROR iota_levels) = Inr (fgRed OR fgIntensity) \<and>
   fgRed OR fgIntensity \<noteq> 0"
proof -
  have mem: "ERROR iota_levels \<in> set (levels iota_levels)"
    by (simp add: levels_def)
  from tables_defined [OF sample_levels_ok] mem obtain a where
    a: "index (colors iota_levels) (ERROR iota_levels) = Inr a" "a \<noteq> 0"
      "index (boldcolors iota_levels) (ERROR iota_levels) = Inr (a OR fgIntensity)"
      "a OR fgIntensity \<noteq> 0"
    by blast
  have "ERROR iota_levels = 1"
    by (simp add: iota_levels_def)
  then have "index (colors iota_levels) (ERROR iota_levels) = Inr fgRed"
    by (simp add: colors_iota index_def)
  with a(1) have "a = fgRed" by simp
  with a mem sample_levels_ok show ?thesis by simp
qed




text \<open>
  C6. For a backend with a handle and any of the six levels, a call with \<open>Color == true\<close>
  and the same call with \<open>Color == false\<close> make the same formatter call and the same write
  (same logger, depth and text); the first makes the two attribute calls in addition,
  the second makes none.
\<close>

theorem Log_same_text:
  assumes "f b = Some fl" and "levels_ok L" and "level \<in> set (levels L)"
  shows "writes (snd (snd (Log L E (b\<lparr>Color := True\<rparr>) tr level calldepth rec))) =
           writes (snd (snd (Log L E (b\<lparr>Color := False\<rparr>) tr level calldepth rec))) \<and>
         writes (snd (snd (Log L E (b\<lparr>Color := False\<rparr>) tr level calldepth rec))) =
           writes tr @ [(Logger b, calldepth + 2, Formatted E rec (calldepth + 1))] \<and>
         format_calls (snd (snd (Log L E (b\<lparr>Color := True\<rparr>) tr level calldepth rec))) =
           format_calls (snd (snd (Log L E (b\<lparr>Color := False\<rparr>) tr level calldepth rec))) \<and>
         (\<exists>a. index (colors L) level = Inr a \<and>
           attr_calls (snd (snd (Log L E (b\<lparr>Color := True\<rparr>) tr level calldepth rec))) =
             attr_calls tr @ [(Fd fl, ucast a, 0), (Fd fl, ucast fgWhite, 0)]) \<and>
         attr_calls (snd (snd (Log L E (b\<lparr>Color := False\<rparr>) tr level calldepth rec))) =
           attr_calls tr"
proof -
  from index_colors_level [OF assms(2,3)] obtain a where a: "index (colors L) level = Inr a"
    by blast
  have on: "Color (b\<lparr>Color := True\<rparr>)" "f (b\<lparr>Color := True\<rparr>) = Some fl"
    using assms(1) by simp_all
  have off: "\<not> (Color (b\<lparr>Color := False\<rparr>) \<and> f (b\<lparr>Color := False\<rparr>) \<noteq> None)"
    by simp
  have "attr_calls (snd (snd (Log L E (b\<lparr>Color := True\<rparr>) tr level calldepth rec))) =
      attr_calls tr @ [(Fd fl, ucast a, 0), (Fd fl, ucast fgWhite, 0)]"
    by (rule Log_color_reads(1) [OF on a])
  with a have "\<exists>a. index (colors L) level = Inr a \<and>
      attr_calls (snd (snd (Log L E (b\<lparr>Color := True\<rparr>) tr level calldepth rec))) =
        attr_calls tr @ [(Fd fl, ucast a, 0), (Fd fl, ucast fgWhite, 0)]"
    by blast
  then show ?thesis
    by (simp add: Log_color_reads(2,3) [OF on a] Log_plain_reads [OF off])
qed

text \<open>The two calls with \<open>WARNING\<close> on a console.\<close>

theorem Log_same_text_witness:
  "f color_backend = Some (File 1 7) \<and> levels_ok iota_levels \<and>
   WARNING iota_levels \<in> set (levels iota_levels) \<and>
   writes (snd (snd (Log iota_levels env_failing (color_backend\<lparr>Color := True\<rparr>) []
       (WARNING iota_levels) 0 (42::nat)))) =
     writes (snd (snd (Log iota_levels env_failing (color_backend\<lparr>Color := False\<rparr>) []
       (WARNING iota_levels) 0 (42::nat)))) \<and>
   writes (snd (snd (Log iota_levels env_failing (color_backend\<lparr>Color := False\<rparr>) []
       (WARNING iota_levels) 0 (42::nat)))) =
     [(Logger color_backend, 2, ''msg'')] \<and>
   attr_calls (snd (snd (Log iota_levels env_failing (color_backend\<lparr>Color := True\<rparr>) []
       (WARNING iota_levels) 0 (42::nat)))) =
     [(7, 6, 0), (7, 7, 0)] \<and>
   attr_calls (snd (snd (Log iota_levels env_failing (color_backend\<lparr>Color := False\<rparr>) []
       (WARNING iota_levels) 0 (42::nat)))) = []"
proof -
  have h1: "f color_backend = Some (File 1 7)"
    by (rule color_backend_fields)
  have mem: "WARNING iota_levels \<in> set (levels iota_levels)"
    by (simp add: levels_def)
  have "WARNING iota_levels = 2"
    by (simp add: iota_levels_def)
  then have h2: "index (colors iota_levels) (WARNING iota_levels) = Inr fgYellow"
    by (simp add: colors_iota index_def)
  from Log_same_text [OF h1 sample_levels_ok mem, where E = env_failing and tr = "[]"
      and calldepth = 0 and rec = "42::nat"]
  obtain a where
    w1: "writes (snd (snd (Log iota_levels env_failing (color_backend\<lparr>Color := True\<rparr>) []
       (WARNING iota_levels) 0 (42::nat)))) =
     writes (snd (snd (Log iota_levels env_failing (color_backend\<lparr>Color := False\<rparr>) []
       (WARNING iota_levels) 0 (42::nat))))"
    and w2: "writes (snd (snd (Log iota_levels env_failing (color_backend\<lparr>Color := False\<rparr>) []
       (WARNING iota_levels) 0 (42::nat)))) =
     writes ([] :: (64 word, nat) event list) @
       [(Logger color_backend, 0 + 2, Formatted env_failing 42 (0 + 1))]"
    and a: "index (colors iota_levels) (WARNING iota_levels) = Inr a"
    and c1: "attr_calls (snd (snd (Log iota_levels env_failing (color_backend\<lparr>Color := True\<rparr>) []
       (WARNING iota_levels) 0 (42::nat)))) =
     attr_calls ([] :: (64 word, nat) event list) @
       [(Fd (File 1 7), ucast a, 0), (Fd (File 1 7), ucast fgWhite, 0)]"
    and c2: "attr_calls (snd (snd (Log iota_levels env_failing (color_backend\<lparr>Color := False\<rparr>) []
       (WARNING iota_levels) 0 (42::nat)))) =
     attr_calls ([] :: (64 word, nat) event list)"
    by blast
  from a h2 have "a = fgYellow" by simp
  with c1 have c1': "attr_calls (snd (snd (Log iota_levels env_failing
       (color_backend\<lparr>Color := True\<rparr>) [] (WARNING iota_levels) 0 (42::nat)))) =
     [(7, 6, 0), (7, 7, 0)]"
    by (simp add: fgYellow_def fgWhite_def)
  from w2 have w2': "writes (snd (snd (Log iota_levels env_failing
       (color_backend\<lparr>Color := False\<rparr>) [] (WARNING iota_levels) 0 (42::nat)))) =
     [(Logger color_backend, 2, ''msg'')]"
    by (simp add: env_failing_def)
  from h1 sample_levels_ok mem w1 w2' c1' c2 show ?thesis by simp
qed

text \<open>
  C7. \<open>NewLogBackend\<close> sets \<open>f\<close> to the result of the type assertion on the writer, which
  is non-nil exactly when the writer has the method \<open>Fd\<close>; after that, no sequence of
  \<open>Log\<close> calls and assignments to \<open>Color\<close> and \<open>Logger\<close> changes \<open>f\<close>.
\<close>

theorem capability_cached:
  "f (NewLogBackend w p fl) = as_file w \<and>
   (f (NewLogBackend w p fl) \<noteq> None \<longleftrightarrow> (\<exists>i h. w = Some (Writer i (Some h)))) \<and>
   f (fst (run_ops L E (NewLogBackend w p fl, tr) xs)) = f (NewLogBackend w p fl)"
proof (intro conjI)
  show probe: "f (NewLogBackend w p fl) = as_file w"
    by (rule NewLogBackend_f)
  show "f (NewLogBackend w p fl) \<noteq> None \<longleftrightarrow> (\<exists>i h. w = Some (Writer i (Some h)))"
    unfolding probe by (rule as_file_Some)
  show "f (fst (run_ops L E (NewLogBackend w p fl, tr) xs)) = f (NewLogBackend w p fl)"
    using run_ops_f [where L = L and E = E and st = "(NewLogBackend w p fl, tr)" and xs = xs]
    by simp
qed

text \<open>
  The handle of a console survives a run that also replaces the logger by one on a pipe.
\<close>

theorem capability_cached_witness:
  "f (NewLogBackend (Some console) ''app '' 0) = Some (File 1 7) \<and>
   f (fst (run_ops iota_levels env_failing (NewLogBackend (Some console) ''app '' 0, [])
        [OpSetColor True, OpLog 1 0 (42::nat), OpSetLogger (log_New (Some pipe) ''x'' 0),
         OpLog (- 1) 0 43, OpSetColor False, OpLog 5 0 44])) = Some (File 1 7)"
  using capability_cached [where w = "Some console" and p = "''app ''" and fl = 0
      and L = iota_levels and E = env_failing and tr = "[]"
      and xs = "[OpSetColor True, OpLog 1 0 (42::nat),
         OpSetLogger (log_New (Some pipe) ''x'' 0), OpLog (- 1) 0 43, OpSetColor False,
         OpLog 5 0 44]"]
  by (simp add: console_def)

text \<open>
  C8. Each of the six level constants is within the bounds of \<open>colors\<close> and of
  \<open>boldcolors\<close>, so the index expressions succeed and \<open>Log\<close> called with such a level
  returns: it does not panic.
\<close>

theorem lookup_in_bounds:
  assumes "levels_ok L" and "l \<in> set (levels L)"
  shows "0 \<le> l \<and> l < int (length (colors L)) \<and> l < int (length (boldcolors L)) \<and>
         (\<exists>a. index (colors L) l = Inr a) \<and> (\<exists>a. index (boldcolors L) l = Inr a) \<and>
         (\<exists>err. fst (Log L E b tr l calldepth rec) = Returned err)"
proof -
  from assms obtain a a' where a: "index (colors L) l = Inr a"
    and a': "index (boldcolors L) l = Inr a'"
    using index_colors [OF assms(1)] index_boldcolors [OF assms(1)]
    by (auto simp: levels_def)
  from a have b1: "0 \<le> l \<and> l < int (length (colors L))"
    by (simp add: index_def split: if_splits)
  from a' have b2: "l < int (length (boldcolors L))"
    by (simp add: index_def split: if_splits)
  have "\<exists>err. fst (Log L E b tr l calldepth rec) = Returned err"
  proof (cases "Color b \<and> f b \<noteq> None")
    case False
    then show ?thesis by (simp add: Log_plain)
  next
    case True
    then obtain fl where fl: "Color b" "f b = Some fl" by auto
    from Log_color [OF fl a, where E = E and tr = tr and calldepth = calldepth and rec = rec]
    obtain err tr' where "Log L E b tr l calldepth rec = (Returned err, b, tr')" by blast
    then show ?thesis by simp
  qed
  with a a' b1 b2 show ?thesis by blast
qed

text \<open>
  \<open>DEBUG\<close>, the largest level of \<open>iota_levels\<close>.
\<close>

theorem lookup_in_bounds_witness:
  "levels_ok iota_levels \<and> DEBUG iota_levels \<in> set (levels iota_levels) \<and>
   0 \<le> DEBUG iota_levels \<and> DEBUG iota_levels < int (length (colors iota_levels)) \<and>
   DEBUG iota_levels < int (length (boldcolors iota_levels)) \<and>
   (\<exists>a. index (colors iota_levels) (DEBUG iota_levels) = Inr a) \<and>
   (\<exists>a. index (boldcolors iota_levels) (DEBUG iota_levels) = Inr a) \<and>
   (\<exists>err. fst (Log iota_levels env_failing color_backend [] (DEBUG iota_levels) 0 (42::nat)) =
      Returned err)"
proof -
  have mem: "DEBUG iota_levels \<in> set (levels iota_levels)"
    by (simp add: levels_def)
  from lookup_in_bounds [OF sample_levels_ok mem, where E = env_failing
      and b = color_backend and tr = "[]" and calldepth = 0 and rec = "42::nat"]
    sample_levels_ok mem
  show ?thesis by simp
qed

text \<open>
  C9. \<open>checkError\<close> returns nil if and only if \<open>r1 \<noteq> 0\<close>; with \<open>r1 = 0\<close> it returns
  the error it was given, or \<open>EINVAL\<close> when it was given none. So
  \<open>setConsoleTextAttribute\<close> returns nil if and only if the call of the procedure
  returned a non-zero \<open>r1\<close>.
\<close>

theorem checkError_nil_iff_success:
  "(checkError r1 r2 err = None \<longleftrightarrow> r1 \<noteq> 0) \<and>
   checkError 0 r2 None = Some EINVAL \<and>
   checkError 0 r2 (Some e) = Some e \<and>
   (fst (setConsoleTextAttribute E tr fl a) = None \<longleftrightarrow>
      fst (Call E tr (Fd fl) (ucast a) 0) \<noteq> 0)"
proof -
  obtain q1 q2 qe where c: "Call E tr (Fd fl) (ucast a) 0 = (q1, q2, qe)"
    by (cases "Call E tr (Fd fl) (ucast a) 0")
  then have "fst (setConsoleTextAttribute E tr fl a) = checkError q1 q2 qe"
    by (simp add: setConsoleTextAttribute_def call_Proc_def Let_def)
  with c have "fst (setConsoleTextAttribute E tr fl a) = None \<longleftrightarrow>
      fst (Call E tr (Fd fl) (ucast a) 0) \<noteq> 0"
    by (simp add: checkError_nil)
  moreover have "checkError 0 r2 None = Some EINVAL" "checkError 0 r2 (Some e) = Some e"
    by (simp_all add: checkError_def)
  ultimately show ?thesis by (simp add: checkError_nil)
qed

text \<open>
  A failed call without an error value gives \<open>EINVAL\<close>; a non-zero \<open>r1\<close> gives nil.
\<close>

theorem checkError_nil_iff_success_witness:
  "checkError (0::64 word) 0 None = Some EINVAL \<and>
   checkError (1::64 word) 0 (Some (OtherError ''success'')) = None \<and>
   fst (setConsoleTextAttribute env_failing [] (File 1 7) fgRed) = Some EINVAL \<and>
   fst (Call env_failing [] 7 (ucast fgRed) 0) = 0"
proof -
  have "fst (Call env_failing [] 7 (ucast fgRed) 0) = 0"
    by (simp add: env_failing_def)
  moreover have "fst (setConsoleTextAttribute env_failing [] (File 1 7) fgRed) = Some EINVAL"
    by (simp add: setConsoleTextAttribute_def call_Proc_def Let_def env_failing_def
        checkError_def)
  ultimately show ?thesis
    using checkError_nil_iff_success [where ?r1.0 = "1::64 word" and ?r2.0 = 0
        and err = "Some (OtherError ''success'')" and E = env_failing and tr = "[]"
        and fl = "File 1 7" and a = fgRed and e = EINVAL]
    by simp
qed

text \<open>
  C10. \<open>Log\<close> leaves the backend as it was: the fields \<open>Logger\<close>, \<open>Color\<close> and \<open>f\<close>
  after the call are those before it, whatever the level, the record and the outcome.
\<close>

theorem Log_frame:
  "fst (snd (Log L E b tr level calldepth rec)) = b \<and>
   Logger (fst (snd (Log L E b tr level calldepth rec))) = Logger b \<and>
   Color (fst (snd (Log L E b tr level calldepth rec))) = Color b \<and>
   f (fst (snd (Log L E b tr level calldepth rec))) = f b"
  by (simp add: Log_backend)

text \<open>
  A call that returns and a call that panics.
\<close>

theorem Log_frame_witness:
  "fst (snd (Log iota_levels env_failing color_backend [] 3 0 (42::nat))) = color_backend \<and>
   fst (snd (Log iota_levels env_failing color_backend [] (- 1) 0 (42::nat))) = color_backend"
  using Log_frame [where L = iota_levels and E = env_failing and b = color_backend
      and tr = "[]" and level = 3 and calldepth = 0 and rec = "42::nat"]
    Log_frame [where L = iota_levels and E = env_failing and b = color_backend
      and tr = "[]" and level = "- 1" and calldepth = 0 and rec = "42::nat"]
  by simp

end
